theory Spec2Isabelle
  imports Main
begin

section \<open>Values of the token payload\<close>

text \<open>
  The payload that \<open>jwt.decode\<close> returns is a Python dict of decoded JSON values.
  \<open>JNull\<close> also stands for Python's \<open>None\<close>, the value \<open>payload.get(k)\<close> gives
  for an absent key. Numbers are integers (a JSON number with a fraction is outside the
  model), and a string is a sequence of code points below 256, one \<open>char\<close> each.
\<close>

datatype json =
    JNull
  | JBool bool
  | JNum int
  | JStr string
  | JList "json list"
  | JObj "(string \<times> json) list"

type_synonym payload = "string \<rightharpoonup> json"

text \<open>Python's truth value of a decoded JSON value, as the operator \<open>or\<close> tests it.\<close>

fun truthy :: "json \<Rightarrow> bool" where
  "truthy JNull = False"
| "truthy (JBool b) = b"
| "truthy (JNum n) = (n \<noteq> 0)"
| "truthy (JStr s) = (s \<noteq> [])"
| "truthy (JList xs) = (xs \<noteq> [])"
| "truthy (JObj kvs) = (kvs \<noteq> [])"

text \<open>\<open>d.get(k)\<close> and \<open>d.get(k, default)\<close>.\<close>

definition py_get :: "payload \<Rightarrow> string \<Rightarrow> json" where
  "py_get d k = (case d k of None \<Rightarrow> JNull | Some v \<Rightarrow> v)"

definition py_get_default :: "payload \<Rightarrow> string \<Rightarrow> json \<Rightarrow> json" where
  "py_get_default d k dflt = (case d k of None \<Rightarrow> dflt | Some v \<Rightarrow> v)"

text \<open>\<open>a or b\<close> on values.\<close>

definition py_or :: "json \<Rightarrow> json \<Rightarrow> json" where
  "py_or a b = (if truthy a then a else b)"

subsection \<open>\<open>str.split()\<close> without arguments\<close>

text \<open>
  Splits at runs of whitespace and returns no empty word. The whitespace code points
  below 256 are tab, line feed, vertical tab, form feed, carriage return, the four
  separators 28 to 31, the space, next line (133) and the no-break space (160).
\<close>

definition is_space :: "char \<Rightarrow> bool" where
  "is_space c = (of_char c \<in> {9, 10, 11, 12, 13, 28, 29, 30, 31, 32, 133, 160 :: nat})"

fun split_from :: "string \<Rightarrow> string \<Rightarrow> string list" where
  "split_from cur [] = (if cur = [] then [] else [cur])"
| "split_from cur (c # cs) =
     (if is_space c
      then (if cur = [] then split_from [] cs else cur # split_from [] cs)
      else split_from (cur @ [c]) cs)"

definition py_split :: "string \<Rightarrow> string list" where
  "py_split s = split_from [] s"

section \<open>Exceptions\<close>

text \<open>
  The exception classes that can arise inside \<open>verify_token\<close>. All of them derive from
  \<open>Exception\<close>. \<open>InvalidTokenError\<close> stands for \<open>jwt.InvalidTokenError\<close> and its
  subclasses, the string naming the check that failed; \<open>KeyResolutionError\<close> is the
  failure of the key client, \<open>AttributeError\<close> the call of a method that a value does
  not have, \<open>ValidationError\<close> the refusal of a value by the result class, and
  \<open>UnexpectedError\<close> any other failure.
\<close>

datatype exn =
    InvalidTokenError string
  | KeyResolutionError
  | AttributeError
  | ValidationError
  | UnexpectedError

fun is_InvalidTokenError :: "exn \<Rightarrow> bool" where
  "is_InvalidTokenError (InvalidTokenError _) = True"
| "is_InvalidTokenError _ = False"

section \<open>The verifier and its collaborators\<close>

record Auth0TokenVerifier =
  domain :: string
  audience :: string
  algorithms :: "string list"
  jwks_url :: string
  issuer :: string

text \<open>
  \<open>Auth0TokenVerifier.__init__\<close>. \<open>algorithms or ["RS256"]\<close> takes the default for
  \<open>None\<close> and for the empty list.
\<close>

definition Auth0TokenVerifier_init ::
  "string \<Rightarrow> string \<Rightarrow> string list option \<Rightarrow> Auth0TokenVerifier" where
  "Auth0TokenVerifier_init dom_name aud algs =
     \<lparr> domain = dom_name,
       audience = aud,
       algorithms = (case algs of None \<Rightarrow> [''RS256''] | Some [] \<Rightarrow> [''RS256''] | Some as \<Rightarrow> as),
       jwks_url = ''https://'' @ dom_name @ ''/.well-known/jwks.json'',
       issuer = ''https://'' @ dom_name @ ''/'' \<rparr>"

record signing_key =
  key_id :: string
  key :: string

text \<open>The \<open>options\<close> dict that \<open>verify_token\<close> passes to \<open>decode\<close>.\<close>

record decode_options =
  verify_signature :: bool
  verify_aud :: bool
  verify_iat :: bool
  verify_exp :: bool
  verify_iss :: bool

definition verify_options :: decode_options where
  "verify_options =
     \<lparr> verify_signature = True, verify_aud = True, verify_iat = True,
       verify_exp = True, verify_iss = True \<rparr>"

text \<open>
  The calls \<open>verify_token\<close> makes into the JWT library: the key client's
  \<open>get_signing_key_from_jwt\<close>, which reads and updates the client's key cache \<open>'s\<close>,
  \<open>decode\<close> with the arguments \<open>token, key, algorithms, audience, issuer, options\<close>,
  and the decoding of the token's first segment that \<open>_get_token_header_info\<close> does.
  Each either raises or returns.
\<close>

record 's jwt_api =
  get_signing_key_from_jwt :: "string \<Rightarrow> 's \<Rightarrow> (exn + signing_key) \<times> 's"
  decode :: "string \<Rightarrow> string \<Rightarrow> string list \<Rightarrow> string \<Rightarrow> string \<Rightarrow> decode_options
               \<Rightarrow> exn + payload"
  header_json :: "string \<Rightarrow> exn + payload"

text \<open>
  Modelled from the spec: the class \<open>AccessToken\<close> is declared in the package
  \<open>mcp.server.auth.provider\<close>, which is not part of this repository. The spec's
  AuthorizationResult has a token string, a client identifier, granted scope strings,
  an expiry timestamp and the resource the token was validated against.
\<close>

record AccessToken =
  token :: string
  client_id :: string
  scopes :: "string list"
  expires_at :: "int option"
  resource :: "string option"

fun as_str :: "json \<Rightarrow> string option" where
  "as_str (JStr s) = Some s"
| "as_str _ = None"

fun strs :: "json list \<Rightarrow> string list option" where
  "strs [] = Some []"
| "strs (JStr s # xs) = map_option ((#) s) (strs xs)"
| "strs (_ # xs) = None"

fun as_str_list :: "json \<Rightarrow> string list option" where
  "as_str_list (JList xs) = strs xs"
| "as_str_list _ = None"

fun as_opt_int :: "json \<Rightarrow> int option option" where
  "as_opt_int JNull = Some None"
| "as_opt_int (JNum n) = Some (Some n)"
| "as_opt_int _ = None"

text \<open>
  Modelled from the spec: the constructor of \<open>AccessToken\<close>, which the source calls
  with the values it took from the payload. A value that does not fit its field is
  refused with a validation error, which leaves the body of the outer \<open>try\<close>.
\<close>

definition AccessToken_new ::
  "string \<Rightarrow> json \<Rightarrow> json \<Rightarrow> json \<Rightarrow> string \<Rightarrow> exn + AccessToken" where
  "AccessToken_new tok cid scs exp_v res =
     (case (as_str cid, as_str_list scs, as_opt_int exp_v) of
        (Some c, Some ss, Some e) \<Rightarrow>
          Inr \<lparr> token = tok, client_id = c, scopes = ss, expires_at = e, resource = Some res \<rparr>
      | _ \<Rightarrow> Inl ValidationError)"

section \<open>\<open>verify_token\<close>\<close>

text \<open>
  \<open>_get_token_header_info\<close>: any exception of the decoding is caught and the empty dict
  returned.
\<close>

definition get_token_header_info :: "'s jwt_api \<Rightarrow> string \<Rightarrow> payload" where
  "get_token_header_info api tok =
     (case header_json api tok of Inl e \<Rightarrow> Map.empty | Inr h \<Rightarrow> h)"

text \<open>
  Step 3 of \<open>verify_token\<close>. \<open>payload["scope"].split()\<close> raises \<open>AttributeError\<close> when
  the claim is not a string.
\<close>

definition extract_scopes :: "payload \<Rightarrow> exn + json" where
  "extract_scopes p =
     (case p ''scope'' of
        Some v \<Rightarrow> (case v of JStr s \<Rightarrow> Inr (JList (map JStr (py_split s)))
                           | _ \<Rightarrow> Inl AttributeError)
      | None \<Rightarrow> (case p ''permissions'' of
                   Some v \<Rightarrow> Inr v
                 | None \<Rightarrow> Inr (JList [])))"

text \<open>\<open>payload.get("azp") or payload.get("client_id", "unknown")\<close>\<close>

definition resolve_client_id :: "payload \<Rightarrow> json" where
  "resolve_client_id p =
     py_or (py_get p ''azp'') (py_get_default p ''client_id'' (JStr ''unknown''))"

text \<open>
  The body of the outer \<open>try\<close>. The two inner handlers return \<open>None\<close>; an exception of
  steps 3 and 4 leaves the body. Logging has no effect on the result and is left out,
  and so is the token preview built before the \<open>try\<close>, a slicing of the string that
  cannot raise.
\<close>

definition verify_token_try ::
  "'s jwt_api \<Rightarrow> Auth0TokenVerifier \<Rightarrow> string \<Rightarrow> 's \<Rightarrow> (exn + AccessToken option) \<times> 's" where
  "verify_token_try api self tok st =
     (case get_signing_key_from_jwt api tok st of
        (Inl jwks_error, st') \<Rightarrow>
          (let header_info = get_token_header_info api tok in (Inr None, st'))
      | (Inr sk, st') \<Rightarrow>
          (case decode api tok (key sk) (algorithms self) (audience self) (issuer self)
                  verify_options of
             Inl decode_error \<Rightarrow> (Inr None, st')
           | Inr p \<Rightarrow>
               (case extract_scopes p of
                  Inl e \<Rightarrow> (Inl e, st')
                | Inr scs \<Rightarrow>
                    (case AccessToken_new tok (resolve_client_id p) scs (py_get p ''exp'')
                            (audience self) of
                       Inl e \<Rightarrow> (Inl e, st')
                     | Inr r \<Rightarrow> (Inr (Some r), st')))))"

text \<open>
  \<open>verify_token\<close> with its two outer handlers, \<open>except InvalidTokenError\<close> and
  \<open>except Exception\<close>. \<open>Inl\<close> would be an exception reaching the caller.
\<close>

definition verify_token ::
  "'s jwt_api \<Rightarrow> Auth0TokenVerifier \<Rightarrow> string \<Rightarrow> 's \<Rightarrow> (exn + AccessToken option) \<times> 's" where
  "verify_token api self tok st =
     (case verify_token_try api self tok st of
        (Inl e, st') \<Rightarrow>
          (if is_InvalidTokenError e then (Inr None, st') else (Inr None, st'))
      | (Inr r, st') \<Rightarrow> (Inr r, st'))"

section \<open>The JWT library\<close>

text \<open>
  Modelled from the spec: the JWT library that \<open>verify_token\<close> calls (its key client
  and its \<open>decode\<close>) is not part of this repository, and this section follows
  sections 4.1 and 4.2 of the specification. A token carries a header with the signing
  algorithm and the key identifier, the claims, and a signature. The signature is kept
  abstract: \<open>validates j k a\<close> says that the signature of \<open>j\<close> verifies against the
  key \<open>k\<close> under the algorithm \<open>a\<close>.
\<close>

record jwt =
  hdr_alg :: string
  hdr_kid :: "string option"
  claims :: payload
  validates :: "string \<Rightarrow> string \<Rightarrow> bool"

text \<open>
  Modelled from the spec: what a call of the library depends on beyond its arguments.
  \<open>unpack\<close> reads a token string, giving nothing for a string that is no token;
  \<open>endpoint n\<close> is the answer of the key-set endpoint to the \<open>n\<close>-th request made so
  far (\<open>None\<close> for a timeout, a status other than 200 or a malformed document);
  \<open>now\<close> is the clock and \<open>leeway\<close> the clock-skew tolerance.
\<close>

record world =
  unpack :: "string \<Rightarrow> jwt option"
  endpoint :: "nat \<Rightarrow> signing_key list option"
  now :: int
  leeway :: int

text \<open>
  Modelled from the spec: the key cache of section 4.1, with the number of requests sent
  to the endpoint so far. Keys are looked up by key identifier.
\<close>

record key_cache =
  cached :: "signing_key list"
  fetches :: nat

definition match_kid :: "signing_key list \<Rightarrow> string option \<Rightarrow> signing_key option" where
  "match_kid ks kid = find (\<lambda>k. Some (key_id k) = kid) ks"

text \<open>
  Modelled from the spec: the Key Provider's \<open>resolve\<close> of section 4.1, which the
  library's key client implements. It reads the key identifier from the unverified
  header and serves the matching key from the cache; a miss triggers one synchronous
  refetch of the key-set document, and no match after that refresh, like a failed fetch,
  is a key-resolution error.
\<close>

definition resolve :: "world \<Rightarrow> string \<Rightarrow> key_cache \<Rightarrow> (exn + signing_key) \<times> key_cache" where
  "resolve w tok st =
     (case unpack w tok of
        None \<Rightarrow> (Inl KeyResolutionError, st)
      | Some j \<Rightarrow>
          (case match_kid (cached st) (hdr_kid j) of
             Some k \<Rightarrow> (Inr k, st)
           | None \<Rightarrow>
               (case endpoint w (fetches st) of
                  None \<Rightarrow> (Inl KeyResolutionError, st\<lparr>fetches := Suc (fetches st)\<rparr>)
                | Some ks \<Rightarrow>
                    (case match_kid ks (hdr_kid j) of
                       Some k \<Rightarrow> (Inr k, \<lparr>cached = ks, fetches = Suc (fetches st)\<rparr>)
                     | None \<Rightarrow>
                         (Inl KeyResolutionError,
                          \<lparr>cached = ks, fetches = Suc (fetches st)\<rparr>)))))"

text \<open>
  Modelled from the spec: the two time checks of section 4.2, issued-at not in the future
  beyond the tolerance and expiry not in the past. An absent claim is neither; a claim
  that is no timestamp fails the check.
\<close>

fun issued_at_ok :: "int \<Rightarrow> int \<Rightarrow> json option \<Rightarrow> bool" where
  "issued_at_ok t skew None = True"
| "issued_at_ok t skew (Some (JNum iat)) = (iat \<le> t + skew)"
| "issued_at_ok t skew (Some _) = False"

fun expiry_ok :: "int \<Rightarrow> int \<Rightarrow> json option \<Rightarrow> bool" where
  "expiry_ok t skew None = True"
| "expiry_ok t skew (Some (JNum e)) = (t \<le> e + skew)"
| "expiry_ok t skew (Some _) = False"

text \<open>
  Modelled from the spec: \<open>decode\<close> of the JWT library, steps 2 and 3 of section 4.2.
  The signature is verified against the given key using only the accepted algorithms,
  never \<open>none\<close>; the audience equals the expected audience exactly, the issuer equals
  the expected issuer exactly, issued-at is not in the future beyond the tolerance and
  expiry is not in the past. Each check is made when its option is set; a failing check
  raises, and otherwise the token's claims are returned.
\<close>

definition spec_decode ::
  "world \<Rightarrow> string \<Rightarrow> string \<Rightarrow> string list \<Rightarrow> string \<Rightarrow> string \<Rightarrow> decode_options
     \<Rightarrow> exn + payload" where
  "spec_decode w tok k algs aud iss opts =
     (case unpack w tok of
        None \<Rightarrow> Inl (InvalidTokenError ''malformed'')
      | Some j \<Rightarrow>
          if verify_signature opts \<and> (hdr_alg j = ''none'' \<or> hdr_alg j \<notin> set algs)
            then Inl (InvalidTokenError ''algorithm'')
          else if verify_signature opts \<and> \<not> validates j k (hdr_alg j)
            then Inl (InvalidTokenError ''signature'')
          else if verify_exp opts \<and> \<not> expiry_ok (now w) (leeway w) (claims j ''exp'')
            then Inl (InvalidTokenError ''exp'')
          else if verify_iat opts \<and> \<not> issued_at_ok (now w) (leeway w) (claims j ''iat'')
            then Inl (InvalidTokenError ''iat'')
          else if verify_aud opts \<and> claims j ''aud'' \<noteq> Some (JStr aud)
            then Inl (InvalidTokenError ''aud'')
          else if verify_iss opts \<and> claims j ''iss'' \<noteq> Some (JStr iss)
            then Inl (InvalidTokenError ''iss'')
          else Inr (claims j))"

text \<open>
  Modelled from the spec: the unverified header of section 4.1, as the decoding of the
  token's first segment gives it, and the library as \<open>verify_token\<close> calls it.
\<close>

definition spec_header :: "world \<Rightarrow> string \<Rightarrow> exn + payload" where
  "spec_header w tok =
     (case unpack w tok of
        None \<Rightarrow> Inl UnexpectedError
      | Some j \<Rightarrow>
          Inr ((case hdr_kid j of None \<Rightarrow> Map.empty | Some kid \<Rightarrow> [''kid'' \<mapsto> JStr kid])
               (''alg'' \<mapsto> JStr (hdr_alg j))))"

definition spec_api :: "world \<Rightarrow> key_cache jwt_api" where
  "spec_api w =
     \<lparr> get_signing_key_from_jwt = resolve w,
       decode = spec_decode w,
       header_json = spec_header w \<rparr>"

section \<open>A concrete setting\<close>

text \<open>
  One key set, one verifier and tokens to run \<open>verify_token\<close> on: the tenant
  \<open>t.example\<close> publishes the key \<open>kid1\<close>, the service's audience is \<open>api\<close>, the
  clock stands at 1000 with no tolerance, and the only string that is a token is
  \<open>tok\<close>.
\<close>

definition example_keys :: "signing_key list" where
  "example_keys = [\<lparr>key_id = ''kid1'', key = ''pub1''\<rparr>]"

definition example_jwt :: "string \<Rightarrow> (string \<times> json) list \<Rightarrow> jwt" where
  "example_jwt a cs =
     \<lparr> hdr_alg = a, hdr_kid = Some ''kid1'', claims = map_of cs,
       validates = (\<lambda>k alg. k = ''pub1'' \<and> alg = ''RS256'') \<rparr>"

text \<open>A token whose signature verifies under every key and algorithm.\<close>

definition hs256_jwt :: jwt where
  "hs256_jwt =
     \<lparr> hdr_alg = ''HS256'', hdr_kid = Some ''kid1'',
       claims = map_of [(''aud'', JStr ''api''), (''iss'', JStr ''https://t.example/'')],
       validates = (\<lambda>k alg. True) \<rparr>"

definition example_world :: "jwt \<Rightarrow> world" where
  "example_world j =
     \<lparr> unpack = (\<lambda>s. if s = ''tok'' then Some j else None),
       endpoint = (\<lambda>n. Some example_keys),
       now = 1000,
       leeway = 0 \<rparr>"

definition example_verifier :: Auth0TokenVerifier where
  "example_verifier = Auth0TokenVerifier_init ''t.example'' ''api'' None"

definition valid_claims :: "(string \<times> json) list" where
  "valid_claims =
     [(''aud'', JStr ''api''), (''iss'', JStr ''https://t.example/''),
      (''iat'', JNum 900), (''exp'', JNum 2000)]"

definition warm_cache :: key_cache where
  "warm_cache = \<lparr>cached = example_keys, fetches = 0\<rparr>"

definition example_result :: "string \<Rightarrow> string list \<Rightarrow> int option \<Rightarrow> AccessToken" where
  "example_result c ss e =
     \<lparr>token = ''tok'', client_id = c, scopes = ss, expires_at = e, resource = Some ''api''\<rparr>"

text \<open>Tokens with the valid claims and some more, which come first and so override.\<close>

definition jwt_with :: "(string \<times> json) list \<Rightarrow> jwt" where
  "jwt_with extra = example_jwt ''RS256'' (extra @ valid_claims)"

definition world_with :: "(string \<times> json) list \<Rightarrow> world" where
  "world_with extra = example_world (jwt_with extra)"

definition claims_without_exp :: "(string \<times> json) list" where
  "claims_without_exp =
     [(''aud'', JStr ''api''), (''iss'', JStr ''https://t.example/''), (''iat'', JNum 900)]"

text \<open>A token that names a key the endpoint does not publish.\<close>

definition unknown_kid_jwt :: jwt where
  "unknown_kid_jwt =
     \<lparr> hdr_alg = ''RS256'', hdr_kid = Some ''kid9'', claims = map_of valid_claims,
       validates = (\<lambda>k alg. True) \<rparr>"

section \<open>Properties\<close>

lemmas run_defs =
  verify_token_def verify_token_try_def spec_api_def resolve_def spec_decode_def
  spec_header_def get_token_header_info_def match_kid_def extract_scopes_def
  resolve_client_id_def py_get_def py_get_default_def py_or_def py_split_def is_space_def
  AccessToken_new_def Auth0TokenVerifier_init_def verify_options_def
  example_keys_def example_jwt_def example_world_def example_verifier_def valid_claims_def
  warm_cache_def example_result_def jwt_with_def world_with_def

subsection \<open>The paths of \<open>verify_token\<close>\<close>

text \<open>
  A result is returned exactly when the key was resolved, \<open>decode\<close> returned a payload,
  the scopes could be read and the result object could be built.
\<close>

lemma verify_token_accepts_iff:
  "verify_token api self tok st = (Inr (Some r), st') \<longleftrightarrow>
     (\<exists>sk p scs.
        get_signing_key_from_jwt api tok st = (Inr sk, st') \<and>
        decode api tok (key sk) (algorithms self) (audience self) (issuer self) verify_options
          = Inr p \<and>
        extract_scopes p = Inr scs \<and>
        AccessToken_new tok (resolve_client_id p) scs (py_get p ''exp'') (audience self) = Inr r)"
  unfolding verify_token_def verify_token_try_def
  by (auto simp: Let_def split: prod.splits sum.splits)

lemma verify_token_total:
  "\<exists>res. fst (verify_token api self tok st) = Inr res"
  unfolding verify_token_def verify_token_try_def
  by (auto simp: Let_def split: prod.splits sum.splits)

lemma verify_token_state:
  "snd (verify_token api self tok st) = snd (get_signing_key_from_jwt api tok st)"
  unfolding verify_token_def verify_token_try_def
  by (auto simp: Let_def split: prod.splits sum.splits)

lemma verify_token_key_failure:
  "get_signing_key_from_jwt api tok st = (Inl e, st1) \<Longrightarrow>
     verify_token api self tok st = (Inr None, st1)"
  unfolding verify_token_def verify_token_try_def
  by (simp add: Let_def)

lemma verify_token_decode_failure:
  "get_signing_key_from_jwt api tok st = (Inr sk, st1) \<Longrightarrow>
   decode api tok (key sk) (algorithms self) (audience self) (issuer self) verify_options = Inl e \<Longrightarrow>
     verify_token api self tok st = (Inr None, st1)"
  unfolding verify_token_def verify_token_try_def
  by simp

lemma verify_token_rejects_unless:
  "(\<And>sk st1. get_signing_key_from_jwt api tok st = (Inr sk, st1) \<Longrightarrow>
      \<exists>e. decode api tok (key sk) (algorithms self) (audience self) (issuer self) verify_options = Inl e)
   \<Longrightarrow> fst (verify_token api self tok st) = Inr None"
  unfolding verify_token_def verify_token_try_def
  by (auto simp: Let_def split: prod.splits sum.splits)

subsection \<open>The library model\<close>

lemma spec_decode_Inr_iff:
  "spec_decode w tok k algs aud iss verify_options = Inr p \<longleftrightarrow>
     (\<exists>j. unpack w tok = Some j \<and> p = claims j \<and>
        hdr_alg j \<noteq> ''none'' \<and> hdr_alg j \<in> set algs \<and> validates j k (hdr_alg j) \<and>
        expiry_ok (now w) (leeway w) (claims j ''exp'') \<and>
        issued_at_ok (now w) (leeway w) (claims j ''iat'') \<and>
        claims j ''aud'' = Some (JStr aud) \<and> claims j ''iss'' = Some (JStr iss))"
  unfolding spec_decode_def verify_options_def
  by (auto split: option.splits)

lemma spec_decode_fails:
  "(\<And>p. spec_decode w tok k algs aud iss verify_options \<noteq> Inr p) \<Longrightarrow>
     \<exists>e. spec_decode w tok k algs aud iss verify_options = Inl e"
  by (cases "spec_decode w tok k algs aud iss verify_options") auto

lemma spec_api_sel [simp]:
  "get_signing_key_from_jwt (spec_api w) = resolve w"
  "decode (spec_api w) = spec_decode w"
  "header_json (spec_api w) = spec_header w"
  by (simp_all add: spec_api_def)

lemma resolve_fetches:
  "fetches (snd (resolve w tok st)) \<le> Suc (fetches st)"
  unfolding resolve_def
  by (auto split: option.splits)

lemma resolve_miss:
  assumes "unpack w tok = Some j" and "match_kid (cached st) (hdr_kid j) = None"
  shows "fetches (snd (resolve w tok st)) = Suc (fetches st)"
    and "endpoint w (fetches st) = None \<Longrightarrow> \<exists>e. fst (resolve w tok st) = Inl e"
    and "endpoint w (fetches st) = Some ks \<Longrightarrow> match_kid ks (hdr_kid j) = None \<Longrightarrow>
           \<exists>e. fst (resolve w tok st) = Inl e"
  using assms unfolding resolve_def
  by (auto split: option.splits)

subsection \<open>Reading the payload and building the result\<close>

lemma strs_Some_iff: "strs xs = Some ss \<longleftrightarrow> xs = map JStr ss"
  by (induction xs arbitrary: ss rule: strs.induct) auto

lemma as_str_list_Some_iff: "as_str_list v = Some ss \<longleftrightarrow> v = JList (map JStr ss)"
  by (cases v) (auto simp: strs_Some_iff)

lemma as_str_Some_iff: "as_str v = Some s \<longleftrightarrow> v = JStr s"
  by (cases v) auto

lemma as_opt_int_Some_iff:
  "as_opt_int v = Some e \<longleftrightarrow> (v = JNull \<and> e = None) \<or> (\<exists>n. v = JNum n \<and> e = Some n)"
  by (cases v) auto

lemma map_JStr_eq_iff: "map JStr xs = map JStr ys \<longleftrightarrow> xs = ys"
  by (rule inj_map_eq_map) (simp add: inj_def)

lemma strs_map_JStr: "strs (map JStr ss) = Some ss"
  by (simp add: strs_Some_iff)

lemma AccessToken_new_Inr_iff:
  "AccessToken_new tok cid scs exp_v res = Inr r \<longleftrightarrow>
     cid = JStr (client_id r) \<and> scs = JList (map JStr (scopes r)) \<and>
     as_opt_int exp_v = Some (expires_at r) \<and> token r = tok \<and> resource r = Some res"
  unfolding AccessToken_new_def
  by (cases r)
     (auto simp: as_str_Some_iff as_str_list_Some_iff map_JStr_eq_iff strs_map_JStr
           split: option.splits)

lemma extract_scopes_Inr_iff:
  "extract_scopes p = Inr scs \<longleftrightarrow>
     (case p ''scope'' of
        Some v \<Rightarrow> (\<exists>s. v = JStr s \<and> scs = JList (map JStr (py_split s)))
      | None \<Rightarrow> (case p ''permissions'' of Some v \<Rightarrow> scs = v | None \<Rightarrow> scs = JList []))"
  unfolding extract_scopes_def
  by (auto split: option.splits json.splits)

lemma resolve_client_id_cases:
  "resolve_client_id p =
     (case p ''azp'' of
        Some a \<Rightarrow> if truthy a then a
                  else (case p ''client_id'' of Some c \<Rightarrow> c | None \<Rightarrow> JStr ''unknown'')
      | None \<Rightarrow> (case p ''client_id'' of Some c \<Rightarrow> c | None \<Rightarrow> JStr ''unknown''))"
  unfolding resolve_client_id_def py_or_def py_get_def py_get_default_def
  by (simp split: option.splits)

subsection \<open>Splitting at whitespace\<close>

text \<open>
  A word without whitespace is returned as it is, and a whitespace character separates
  what is split before it from what is split after it. Together with the empty string
  these two equations determine \<open>py_split\<close>.
\<close>

lemma split_from_word:
  "\<forall>c \<in> set w. \<not> is_space c \<Longrightarrow> cur @ w \<noteq> [] \<Longrightarrow> split_from cur w = [cur @ w]"
  by (induction w arbitrary: cur) auto

lemma split_from_at_space:
  "is_space c \<Longrightarrow> split_from cur (u @ c # v) = split_from cur u @ split_from [] v"
  by (induction u arbitrary: cur) auto

lemma py_split_word:
  "w \<noteq> [] \<Longrightarrow> \<forall>c \<in> set w. \<not> is_space c \<Longrightarrow> py_split w = [w]"
  unfolding py_split_def using split_from_word [of w "[]"] by simp

lemma py_split_at_space:
  "is_space c \<Longrightarrow> py_split (u @ c # v) = py_split u @ py_split v"
  unfolding py_split_def by (rule split_from_at_space)

subsection \<open>Key resolution\<close>

lemma resolve_finds:
  assumes "unpack w tok = Some j"
    and "match_kid (cached ks) (hdr_kid j) = Some sk
         \<or> (match_kid (cached ks) (hdr_kid j) = None
            \<and> (\<exists>keys. endpoint w (fetches ks) = Some keys \<and> match_kid keys (hdr_kid j) = Some sk))"
  shows "fst (resolve w tok ks) = Inr sk"
  using assms unfolding resolve_def
  by (auto split: option.splits)

subsection \<open>Claims of the expected shape\<close>

text \<open>
  When the scope claim is a string and the permissions claim a list of strings, the
  scopes can be read; when the authorized party and the client id are strings, the
  client identifier is one.
\<close>

lemma extract_scopes_shape:
  assumes "\<forall>v. p ''scope'' = Some v \<longrightarrow> (\<exists>s. v = JStr s)"
    and "\<forall>v. p ''permissions'' = Some v \<longrightarrow> (\<exists>ps. v = JList (map JStr ps))"
  shows "\<exists>ss. extract_scopes p = Inr (JList (map JStr ss))"
proof (cases "p ''scope''")
  case (Some v)
  with assms(1) obtain s where "v = JStr s" by blast
  with Some show ?thesis by (auto simp: extract_scopes_def)
next
  case None
  show ?thesis
  proof (cases "p ''permissions''")
    case (Some v)
    with assms(2) obtain ps where "v = JList (map JStr ps)" by blast
    with Some None show ?thesis by (auto simp: extract_scopes_def)
  next
    case n: None
    have "extract_scopes p = Inr (JList (map JStr []))"
      using None n by (simp add: extract_scopes_def)
    then show ?thesis by blast
  qed
qed

lemma resolve_client_id_shape:
  assumes "\<forall>v. p ''azp'' = Some v \<longrightarrow> (\<exists>a. v = JStr a)"
    and "\<forall>v. p ''client_id'' = Some v \<longrightarrow> (\<exists>c. v = JStr c)"
  shows "\<exists>c. resolve_client_id p = JStr c"
  using assms unfolding resolve_client_id_cases
  by (auto split: option.splits)

subsection \<open>The claims\<close>

text \<open>
  C1. \<open>verify_token\<close> returns a result only if the signature, audience, issuer,
  issued-at and expiry checks have all passed. Whatever the library does, a result is
  returned only after the key was resolved and \<open>decode\<close>, called with all five checks
  switched on, returned without raising. With the library as specified this means: the
  token's algorithm is an accepted one and its signature verifies against the resolved
  key, its audience is the verifier's audience, its issuer is the verifier's issuer, its
  issued-at is not in the future and its expiry is not in the past.
\<close>

theorem result_only_after_all_checks:
  "(verify_token api self tok st = (Inr (Some r), st') \<longrightarrow>
      (\<exists>sk p. get_signing_key_from_jwt api tok st = (Inr sk, st')
         \<and> decode api tok (key sk) (algorithms self) (audience self) (issuer self)
             \<lparr> verify_signature = True, verify_aud = True, verify_iat = True,
               verify_exp = True, verify_iss = True \<rparr> = Inr p))
   \<and> (verify_token (spec_api w) self tok ks = (Inr (Some r), ks') \<longrightarrow>
      (\<exists>j sk. unpack w tok = Some j \<and> resolve w tok ks = (Inr sk, ks')
         \<and> hdr_alg j \<in> set (algorithms self) \<and> validates j (key sk) (hdr_alg j)
         \<and> claims j ''aud'' = Some (JStr (audience self))
         \<and> claims j ''iss'' = Some (JStr (issuer self))
         \<and> issued_at_ok (now w) (leeway w) (claims j ''iat'')
         \<and> expiry_ok (now w) (leeway w) (claims j ''exp'')))"
proof (intro conjI impI)
  assume "verify_token api self tok st = (Inr (Some r), st')"
  then show "\<exists>sk p. get_signing_key_from_jwt api tok st = (Inr sk, st')
         \<and> decode api tok (key sk) (algorithms self) (audience self) (issuer self)
             \<lparr> verify_signature = True, verify_aud = True, verify_iat = True,
               verify_exp = True, verify_iss = True \<rparr> = Inr p"
    unfolding verify_token_accepts_iff verify_options_def by blast
next
  assume "verify_token (spec_api w) self tok ks = (Inr (Some r), ks')"
  then obtain sk p where
    k: "resolve w tok ks = (Inr sk, ks')" and
    d: "spec_decode w tok (key sk) (algorithms self) (audience self) (issuer self)
          verify_options = Inr p"
    unfolding verify_token_accepts_iff by auto
  from d obtain j where "unpack w tok = Some j"
    "hdr_alg j \<in> set (algorithms self)" "validates j (key sk) (hdr_alg j)"
    "expiry_ok (now w) (leeway w) (claims j ''exp'')"
    "issued_at_ok (now w) (leeway w) (claims j ''iat'')"
    "claims j ''aud'' = Some (JStr (audience self))"
    "claims j ''iss'' = Some (JStr (issuer self))"
    unfolding spec_decode_Inr_iff by auto
  with k show "\<exists>j sk. unpack w tok = Some j \<and> resolve w tok ks = (Inr sk, ks')
         \<and> hdr_alg j \<in> set (algorithms self) \<and> validates j (key sk) (hdr_alg j)
         \<and> claims j ''aud'' = Some (JStr (audience self))
         \<and> claims j ''iss'' = Some (JStr (issuer self))
         \<and> issued_at_ok (now w) (leeway w) (claims j ''iat'')
         \<and> expiry_ok (now w) (leeway w) (claims j ''exp'')"
    by blast
qed

theorem result_only_after_all_checks_witness:
  "verify_token (spec_api (world_with [])) example_verifier ''tok'' warm_cache
     = (Inr (Some (example_result ''unknown'' [] (Some 2000))), warm_cache)
   \<and> (\<exists>sk p. get_signing_key_from_jwt (spec_api (world_with [])) ''tok'' warm_cache
                = (Inr sk, warm_cache)
         \<and> decode (spec_api (world_with [])) ''tok'' (key sk) (algorithms example_verifier)
             (audience example_verifier) (issuer example_verifier)
             \<lparr> verify_signature = True, verify_aud = True, verify_iat = True,
               verify_exp = True, verify_iss = True \<rparr> = Inr p)
   \<and> (\<exists>j sk. unpack (world_with []) ''tok'' = Some j
         \<and> resolve (world_with []) ''tok'' warm_cache = (Inr sk, warm_cache)
         \<and> hdr_alg j \<in> set (algorithms example_verifier) \<and> validates j (key sk) (hdr_alg j)
         \<and> claims j ''aud'' = Some (JStr (audience example_verifier))
         \<and> claims j ''iss'' = Some (JStr (issuer example_verifier))
         \<and> issued_at_ok (now (world_with [])) (leeway (world_with [])) (claims j ''iat'')
         \<and> expiry_ok (now (world_with [])) (leeway (world_with [])) (claims j ''exp''))"
proof -
  have h: "verify_token (spec_api (world_with [])) example_verifier ''tok'' warm_cache
     = (Inr (Some (example_result ''unknown'' [] (Some 2000))), warm_cache)"
    by (simp add: run_defs)
  from result_only_after_all_checks
         [where api = "spec_api (world_with [])" and w = "world_with []"
            and self = example_verifier and tok = "''tok''" and st = warm_cache
            and st' = warm_cache and ks = warm_cache and ks' = warm_cache
            and r = "example_result ''unknown'' [] (Some 2000)"] h
  show ?thesis by blast
qed

text \<open>
  C2. A token whose header declares an algorithm outside the verifier's accepted list, or
  the algorithm \<open>none\<close>, is rejected whatever its signature verifies under; without a
  configured list the accepted list is the single algorithm RS256.
\<close>

theorem unlisted_algorithm_rejected:
  "(unpack w tok = Some j \<and> (hdr_alg j \<notin> set (algorithms self) \<or> hdr_alg j = ''none'')
      \<longrightarrow> fst (verify_token (spec_api w) self tok st) = Inr None)
   \<and> algorithms (Auth0TokenVerifier_init d aud None) = [''RS256'']"
proof (intro conjI impI)
  assume a: "unpack w tok = Some j \<and> (hdr_alg j \<notin> set (algorithms self) \<or> hdr_alg j = ''none'')"
  show "fst (verify_token (spec_api w) self tok st) = Inr None"
  proof (rule verify_token_rejects_unless)
    fix sk :: signing_key and st1 :: key_cache
    have "\<And>p. spec_decode w tok (key sk) (algorithms self) (audience self) (issuer self)
            verify_options \<noteq> Inr p"
      using a unfolding spec_decode_Inr_iff by auto
    then show "\<exists>e. decode (spec_api w) tok (key sk) (algorithms self) (audience self)
                  (issuer self) verify_options = Inl e"
      using spec_decode_fails by simp
  qed
next
  show "algorithms (Auth0TokenVerifier_init d aud None) = [''RS256'']"
    by (simp add: Auth0TokenVerifier_init_def)
qed

theorem unlisted_algorithm_rejected_witness:
  "unpack (example_world hs256_jwt) ''tok'' = Some hs256_jwt
   \<and> hdr_alg hs256_jwt \<notin> set (algorithms example_verifier)
   \<and> validates hs256_jwt ''pub1'' (hdr_alg hs256_jwt)
   \<and> fst (verify_token (spec_api (example_world hs256_jwt)) example_verifier ''tok'' warm_cache)
       = Inr None"
proof -
  have h: "unpack (example_world hs256_jwt) ''tok'' = Some hs256_jwt
      \<and> (hdr_alg hs256_jwt \<notin> set (algorithms example_verifier) \<or> hdr_alg hs256_jwt = ''none'')"
    by (simp add: run_defs hs256_jwt_def)
  have v: "validates hs256_jwt ''pub1'' (hdr_alg hs256_jwt)"
    by (simp add: hs256_jwt_def)
  have n: "hdr_alg hs256_jwt \<notin> set (algorithms example_verifier)"
    by (simp add: run_defs hs256_jwt_def)
  from unlisted_algorithm_rejected
         [where w = "example_world hs256_jwt" and tok = "''tok''" and j = hs256_jwt
            and self = example_verifier and st = warm_cache]
  have "fst (verify_token (spec_api (example_world hs256_jwt)) example_verifier ''tok''
          warm_cache) = Inr None"
    using h by blast
  with h v n show ?thesis by blast
qed

text \<open>
  C3. Every token that \<open>verify_token\<close> accepts carries exactly the configured audience
  as its audience claim and exactly \<open>https://{domain}/\<close> as its issuer claim, and the
  result names that audience as its resource; a token whose audience claim is anything
  else is rejected, whatever its signature.
\<close>

theorem audience_and_issuer_exact:
  "(verify_token (spec_api w) (Auth0TokenVerifier_init d aud algs) tok st = (Inr (Some r), st')
      \<longrightarrow> (\<exists>j. unpack w tok = Some j \<and> claims j ''aud'' = Some (JStr aud)
               \<and> claims j ''iss'' = Some (JStr (''https://'' @ d @ ''/''))
               \<and> resource r = Some aud))
   \<and> (unpack w tok = Some j' \<and> claims j' ''aud'' \<noteq> Some (JStr aud)
      \<longrightarrow> fst (verify_token (spec_api w) (Auth0TokenVerifier_init d aud algs) tok st) = Inr None)"
proof (intro conjI impI)
  let ?v = "Auth0TokenVerifier_init d aud algs"
  have au: "audience ?v = aud" and iss_eq: "issuer ?v = ''https://'' @ d @ ''/''"
    by (simp_all add: Auth0TokenVerifier_init_def)
  {
    assume "verify_token (spec_api w) ?v tok st = (Inr (Some r), st')"
    then obtain sk :: signing_key and p scs where
      d: "spec_decode w tok (key sk) (algorithms ?v) (audience ?v) (issuer ?v) verify_options
            = Inr p" and
      n: "AccessToken_new tok (resolve_client_id p) scs (py_get p ''exp'') (audience ?v) = Inr r"
      unfolding verify_token_accepts_iff by auto
    from n have "resource r = Some aud"
      unfolding AccessToken_new_Inr_iff au by simp
    with d show "\<exists>j. unpack w tok = Some j \<and> claims j ''aud'' = Some (JStr aud)
               \<and> claims j ''iss'' = Some (JStr (''https://'' @ d @ ''/''))
               \<and> resource r = Some aud"
      unfolding spec_decode_Inr_iff au iss_eq by auto
  }
  {
    assume a: "unpack w tok = Some j' \<and> claims j' ''aud'' \<noteq> Some (JStr aud)"
    show "fst (verify_token (spec_api w) ?v tok st) = Inr None"
    proof (rule verify_token_rejects_unless)
      fix sk :: signing_key and st1 :: key_cache
      have "\<And>p. spec_decode w tok (key sk) (algorithms ?v) (audience ?v) (issuer ?v)
              verify_options \<noteq> Inr p"
        using a unfolding spec_decode_Inr_iff au by auto
      then show "\<exists>e. decode (spec_api w) tok (key sk) (algorithms ?v) (audience ?v)
                    (issuer ?v) verify_options = Inl e"
        using spec_decode_fails by simp
    qed
  }
qed

theorem audience_and_issuer_exact_witness:
  "verify_token (spec_api (world_with [])) (Auth0TokenVerifier_init ''t.example'' ''api'' None)
       ''tok'' warm_cache
     = (Inr (Some (example_result ''unknown'' [] (Some 2000))), warm_cache)
   \<and> (\<exists>j. unpack (world_with []) ''tok'' = Some j \<and> claims j ''aud'' = Some (JStr ''api'')
          \<and> claims j ''iss'' = Some (JStr (''https://'' @ ''t.example'' @ ''/''))
          \<and> resource (example_result ''unknown'' [] (Some 2000)) = Some ''api'')
   \<and> unpack (world_with [(''aud'', JStr ''other'')]) ''tok''
        = Some (jwt_with [(''aud'', JStr ''other'')])
   \<and> claims (jwt_with [(''aud'', JStr ''other'')]) ''aud'' \<noteq> Some (JStr ''api'')
   \<and> validates (jwt_with [(''aud'', JStr ''other'')]) ''pub1'' ''RS256''
   \<and> fst (verify_token (spec_api (world_with [(''aud'', JStr ''other'')]))
            (Auth0TokenVerifier_init ''t.example'' ''api'' None) ''tok'' warm_cache) = Inr None"
proof -
  have h1: "verify_token (spec_api (world_with []))
       (Auth0TokenVerifier_init ''t.example'' ''api'' None) ''tok'' warm_cache
     = (Inr (Some (example_result ''unknown'' [] (Some 2000))), warm_cache)"
    by (simp add: run_defs)
  have h2: "unpack (world_with [(''aud'', JStr ''other'')]) ''tok''
        = Some (jwt_with [(''aud'', JStr ''other'')])
      \<and> claims (jwt_with [(''aud'', JStr ''other'')]) ''aud'' \<noteq> Some (JStr ''api'')"
    by (simp add: run_defs)
  have v: "validates (jwt_with [(''aud'', JStr ''other'')]) ''pub1'' ''RS256''"
    by (simp add: run_defs)
  from audience_and_issuer_exact
         [where w = "world_with []" and d = "''t.example''" and aud = "''api''"
            and algs = None and tok = "''tok''" and st = warm_cache and st' = warm_cache
            and r = "example_result ''unknown'' [] (Some 2000)"] h1
  have c1: "\<exists>j. unpack (world_with []) ''tok'' = Some j \<and> claims j ''aud'' = Some (JStr ''api'')
          \<and> claims j ''iss'' = Some (JStr (''https://'' @ ''t.example'' @ ''/''))
          \<and> resource (example_result ''unknown'' [] (Some 2000)) = Some ''api''"
    by blast
  from audience_and_issuer_exact
         [where w = "world_with [(''aud'', JStr ''other'')]" and d = "''t.example''"
            and aud = "''api''" and algs = None and tok = "''tok''" and st = warm_cache
            and j' = "jwt_with [(''aud'', JStr ''other'')]"] h2
  have c2: "fst (verify_token (spec_api (world_with [(''aud'', JStr ''other'')]))
            (Auth0TokenVerifier_init ''t.example'' ''api'' None) ''tok'' warm_cache) = Inr None"
    by blast
  from h1 h2 v c1 c2 show ?thesis by blast
qed

text \<open>
  C5. \<open>verify_token\<close> returns an \<open>AccessToken\<close> or \<open>None\<close> and never raises: a
  failure to resolve the key, a failure of \<open>decode\<close> and any exception that leaves the
  body of the outer \<open>try\<close> all give the same \<open>None\<close>.
\<close>

theorem every_failure_returns_None:
  "(\<exists>res. fst (verify_token api self tok st) = Inr res)
   \<and> (get_signing_key_from_jwt api tok st = (Inl e, st')
        \<longrightarrow> verify_token api self tok st = (Inr None, st'))
   \<and> (get_signing_key_from_jwt api tok st = (Inr sk, st')
        \<and> decode api tok (key sk) (algorithms self) (audience self) (issuer self)
            verify_options = Inl e
        \<longrightarrow> verify_token api self tok st = (Inr None, st'))
   \<and> (verify_token_try api self tok st = (Inl e, st')
        \<longrightarrow> verify_token api self tok st = (Inr None, st'))"
proof (intro conjI impI)
  show "\<exists>res. fst (verify_token api self tok st) = Inr res"
    by (rule verify_token_total)
next
  assume "get_signing_key_from_jwt api tok st = (Inl e, st')"
  then show "verify_token api self tok st = (Inr None, st')"
    by (rule verify_token_key_failure)
next
  assume "get_signing_key_from_jwt api tok st = (Inr sk, st')
        \<and> decode api tok (key sk) (algorithms self) (audience self) (issuer self)
            verify_options = Inl e"
  then show "verify_token api self tok st = (Inr None, st')"
    by (auto intro: verify_token_decode_failure)
next
  assume "verify_token_try api self tok st = (Inl e, st')"
  then show "verify_token api self tok st = (Inr None, st')"
    by (simp add: verify_token_def)
qed

theorem every_failure_returns_None_witness:
  "resolve (world_with []) ''junk'' warm_cache = (Inl KeyResolutionError, warm_cache)
   \<and> verify_token (spec_api (world_with [])) example_verifier ''junk'' warm_cache
       = (Inr None, warm_cache)
   \<and> resolve (world_with [(''iss'', JStr ''https://evil.example/'')]) ''tok'' warm_cache
       = (Inr \<lparr>key_id = ''kid1'', key = ''pub1''\<rparr>, warm_cache)
   \<and> spec_decode (world_with [(''iss'', JStr ''https://evil.example/'')]) ''tok'' ''pub1''
         (algorithms example_verifier) (audience example_verifier) (issuer example_verifier)
         verify_options = Inl (InvalidTokenError ''iss'')
   \<and> verify_token (spec_api (world_with [(''iss'', JStr ''https://evil.example/'')]))
         example_verifier ''tok'' warm_cache = (Inr None, warm_cache)
   \<and> verify_token_try (spec_api (world_with [(''scope'', JNum 7)])) example_verifier ''tok''
         warm_cache = (Inl AttributeError, warm_cache)
   \<and> verify_token (spec_api (world_with [(''scope'', JNum 7)])) example_verifier ''tok''
         warm_cache = (Inr None, warm_cache)"
proof -
  have k: "get_signing_key_from_jwt (spec_api (world_with [])) ''junk'' warm_cache
             = (Inl KeyResolutionError, warm_cache)"
    by (simp add: run_defs)
  have d: "get_signing_key_from_jwt (spec_api (world_with [(''iss'', JStr ''https://evil.example/'')]))
             ''tok'' warm_cache = (Inr \<lparr>key_id = ''kid1'', key = ''pub1''\<rparr>, warm_cache)
      \<and> decode (spec_api (world_with [(''iss'', JStr ''https://evil.example/'')])) ''tok''
          (key \<lparr>key_id = ''kid1'', key = ''pub1''\<rparr>)
          (algorithms example_verifier) (audience example_verifier) (issuer example_verifier)
          verify_options = Inl (InvalidTokenError ''iss'')"
    by (simp add: run_defs)
  have t: "verify_token_try (spec_api (world_with [(''scope'', JNum 7)])) example_verifier ''tok''
         warm_cache = (Inl AttributeError, warm_cache)"
    by (simp add: run_defs)
  from every_failure_returns_None
         [where api = "spec_api (world_with [])" and tok = "''junk''" and st = warm_cache
            and e = KeyResolutionError and st' = warm_cache and self = example_verifier] k
  have c1: "verify_token (spec_api (world_with [])) example_verifier ''junk'' warm_cache
       = (Inr None, warm_cache)"
    by blast
  from every_failure_returns_None
         [where api = "spec_api (world_with [(''iss'', JStr ''https://evil.example/'')])"
            and tok = "''tok''" and st = warm_cache and e = "InvalidTokenError ''iss''"
            and st' = warm_cache and self = example_verifier
            and sk = "\<lparr>key_id = ''kid1'', key = ''pub1''\<rparr>"] d
  have c2: "verify_token (spec_api (world_with [(''iss'', JStr ''https://evil.example/'')]))
         example_verifier ''tok'' warm_cache = (Inr None, warm_cache)"
    by blast
  from every_failure_returns_None
         [where api = "spec_api (world_with [(''scope'', JNum 7)])"
            and tok = "''tok''" and st = warm_cache and e = AttributeError
            and st' = warm_cache and self = example_verifier] t
  have c3: "verify_token (spec_api (world_with [(''scope'', JNum 7)])) example_verifier ''tok''
         warm_cache = (Inr None, warm_cache)"
    by blast
  from k d t c1 c2 c3 show ?thesis by simp
qed

text \<open>
  C6. The granted scopes of an accepted token are the whitespace-split of the scope
  claim if the payload has one, else the permissions list if it has one, else empty.
  The split is the one at whitespace: the empty string has no word, a non-empty string
  without whitespace is its own single word, and a whitespace character (code points 9
  to 13, 28 to 32, 133 and 160) separates the words before it from the words after it.
  Scope \<open>a b c\<close> gives \<open>a\<close>, \<open>b\<close>, \<open>c\<close>; permissions \<open>a\<close>, \<open>b\<close> without
  a scope claim give \<open>a\<close>, \<open>b\<close>; neither claim gives no scope.
\<close>

theorem granted_scopes_from_claims:
  "(verify_token api self tok st = (Inr (Some r), st') \<longrightarrow>
      (\<exists>sk p. get_signing_key_from_jwt api tok st = (Inr sk, st')
         \<and> decode api tok (key sk) (algorithms self) (audience self) (issuer self)
             verify_options = Inr p
         \<and> (case p ''scope'' of
              Some v \<Rightarrow> (\<exists>s. v = JStr s \<and> scopes r = py_split s)
            | None \<Rightarrow> (case p ''permissions'' of
                         Some v \<Rightarrow> v = JList (map JStr (scopes r))
                       | None \<Rightarrow> scopes r = []))))
   \<and> py_split [] = []
   \<and> (word \<noteq> []
        \<and> (\<forall>ch \<in> set word.
              of_char ch \<notin> {9, 10, 11, 12, 13, 28, 29, 30, 31, 32, 133, 160 :: nat})
       \<longrightarrow> py_split word = [word])
   \<and> (of_char sp \<in> {9, 10, 11, 12, 13, 28, 29, 30, 31, 32, 133, 160 :: nat}
       \<longrightarrow> py_split (pre @ sp # post) = py_split pre @ py_split post)
   \<and> extract_scopes [''scope'' \<mapsto> JStr ''a b c''] = Inr (JList [JStr ''a'', JStr ''b'', JStr ''c''])
   \<and> extract_scopes [''permissions'' \<mapsto> JList [JStr ''a'', JStr ''b'']]
        = Inr (JList [JStr ''a'', JStr ''b''])
   \<and> extract_scopes Map.empty = Inr (JList [])"
proof (intro conjI impI)
  assume "verify_token api self tok st = (Inr (Some r), st')"
  then obtain sk p scs where
    k: "get_signing_key_from_jwt api tok st = (Inr sk, st')" and
    d: "decode api tok (key sk) (algorithms self) (audience self) (issuer self)
          verify_options = Inr p" and
    x: "extract_scopes p = Inr scs" and
    n: "AccessToken_new tok (resolve_client_id p) scs (py_get p ''exp'') (audience self) = Inr r"
    unfolding verify_token_accepts_iff by auto
  from n have s: "scs = JList (map JStr (scopes r))"
    unfolding AccessToken_new_Inr_iff by simp
  from x s have "case p ''scope'' of
              Some v \<Rightarrow> (\<exists>s. v = JStr s \<and> scopes r = py_split s)
            | None \<Rightarrow> (case p ''permissions'' of
                         Some v \<Rightarrow> v = JList (map JStr (scopes r))
                       | None \<Rightarrow> scopes r = [])"
    unfolding extract_scopes_Inr_iff by (auto simp: map_JStr_eq_iff split: option.splits)
  with k d show "\<exists>sk p. get_signing_key_from_jwt api tok st = (Inr sk, st')
         \<and> decode api tok (key sk) (algorithms self) (audience self) (issuer self)
             verify_options = Inr p
         \<and> (case p ''scope'' of
              Some v \<Rightarrow> (\<exists>s. v = JStr s \<and> scopes r = py_split s)
            | None \<Rightarrow> (case p ''permissions'' of
                         Some v \<Rightarrow> v = JList (map JStr (scopes r))
                       | None \<Rightarrow> scopes r = []))"
    by blast
next
  show "py_split [] = []"
    by (simp add: py_split_def)
next
  assume a: "word \<noteq> []
        \<and> (\<forall>ch \<in> set word.
              of_char ch \<notin> {9, 10, 11, 12, 13, 28, 29, 30, 31, 32, 133, 160 :: nat})"
  then have "\<forall>ch \<in> set word. \<not> is_space ch"
    unfolding is_space_def by blast
  with a show "py_split word = [word]"
    by (simp add: py_split_word)
next
  assume "of_char sp \<in> {9, 10, 11, 12, 13, 28, 29, 30, 31, 32, 133, 160 :: nat}"
  then have "is_space sp"
    unfolding is_space_def .
  then show "py_split (pre @ sp # post) = py_split pre @ py_split post"
    by (rule py_split_at_space)
qed (simp_all add: extract_scopes_def py_split_def is_space_def)

theorem granted_scopes_from_claims_witness:
  "verify_token (spec_api (world_with [(''scope'', JStr ''a b c'')])) example_verifier ''tok''
       warm_cache
     = (Inr (Some (example_result ''unknown'' [''a'', ''b'', ''c''] (Some 2000))), warm_cache)
   \<and> verify_token (spec_api (world_with [(''permissions'', JList [JStr ''a'', JStr ''b''])]))
       example_verifier ''tok'' warm_cache
     = (Inr (Some (example_result ''unknown'' [''a'', ''b''] (Some 2000))), warm_cache)
   \<and> verify_token (spec_api (world_with [])) example_verifier ''tok'' warm_cache
     = (Inr (Some (example_result ''unknown'' [] (Some 2000))), warm_cache)
   \<and> (\<exists>sk p. get_signing_key_from_jwt (spec_api (world_with [(''scope'', JStr ''a b c'')]))
                ''tok'' warm_cache = (Inr sk, warm_cache)
         \<and> decode (spec_api (world_with [(''scope'', JStr ''a b c'')])) ''tok'' (key sk)
             (algorithms example_verifier) (audience example_verifier)
             (issuer example_verifier) verify_options = Inr p
         \<and> (case p ''scope'' of
              Some v \<Rightarrow> (\<exists>s. v = JStr s
                 \<and> scopes (example_result ''unknown'' [''a'', ''b'', ''c''] (Some 2000))
                     = py_split s)
            | None \<Rightarrow> (case p ''permissions'' of
                 Some v \<Rightarrow> v = JList (map JStr
                     (scopes (example_result ''unknown'' [''a'', ''b'', ''c''] (Some 2000))))
               | None \<Rightarrow>
                   scopes (example_result ''unknown'' [''a'', ''b'', ''c''] (Some 2000)) = [])))
   \<and> verify_token (spec_api (world_with [(''scope'', JStr ''openid profile  email '')]))
       example_verifier ''tok'' warm_cache
     = (Inr (Some (example_result ''unknown'' [''openid'', ''profile'', ''email'']
          (Some 2000))), warm_cache)
   \<and> py_split ''openid'' = [''openid'']
   \<and> of_char CHR '' '' \<in> {9, 10, 11, 12, 13, 28, 29, 30, 31, 32, 133, 160 :: nat}
   \<and> py_split (''openid'' @ CHR '' '' # ''profile'') = py_split ''openid'' @ py_split ''profile''"
proof -
  have h1: "verify_token (spec_api (world_with [(''scope'', JStr ''a b c'')])) example_verifier
       ''tok'' warm_cache
     = (Inr (Some (example_result ''unknown'' [''a'', ''b'', ''c''] (Some 2000))), warm_cache)"
    by (simp add: run_defs)
  have h2: "verify_token (spec_api (world_with [(''permissions'', JList [JStr ''a'', JStr ''b''])]))
       example_verifier ''tok'' warm_cache
     = (Inr (Some (example_result ''unknown'' [''a'', ''b''] (Some 2000))), warm_cache)"
    by (simp add: run_defs)
  have h3: "verify_token (spec_api (world_with [])) example_verifier ''tok'' warm_cache
     = (Inr (Some (example_result ''unknown'' [] (Some 2000))), warm_cache)"
    by (simp add: run_defs)
  have h4: "verify_token (spec_api (world_with [(''scope'', JStr ''openid profile  email '')]))
       example_verifier ''tok'' warm_cache
     = (Inr (Some (example_result ''unknown'' [''openid'', ''profile'', ''email'']
          (Some 2000))), warm_cache)"
    by (simp add: run_defs)
  have w: "''openid'' \<noteq> []
        \<and> (\<forall>ch \<in> set ''openid''.
              of_char ch \<notin> {9, 10, 11, 12, 13, 28, 29, 30, 31, 32, 133, 160 :: nat})"
    by simp
  have b: "of_char CHR '' '' \<in> {9, 10, 11, 12, 13, 28, 29, 30, 31, 32, 133, 160 :: nat}"
    by simp
  from granted_scopes_from_claims
         [where api = "spec_api (world_with [(''scope'', JStr ''a b c'')])"
            and self = example_verifier and tok = "''tok''" and st = warm_cache
            and st' = warm_cache
            and r = "example_result ''unknown'' [''a'', ''b'', ''c''] (Some 2000)"
            and word = "''openid''" and sp = "CHR '' ''" and pre = "''openid''"
            and post = "''profile''"] h1 w b
  have c: "(\<exists>sk p. get_signing_key_from_jwt (spec_api (world_with [(''scope'', JStr ''a b c'')]))
                ''tok'' warm_cache = (Inr sk, warm_cache)
         \<and> decode (spec_api (world_with [(''scope'', JStr ''a b c'')])) ''tok'' (key sk)
             (algorithms example_verifier) (audience example_verifier)
             (issuer example_verifier) verify_options = Inr p
         \<and> (case p ''scope'' of
              Some v \<Rightarrow> (\<exists>s. v = JStr s
                 \<and> scopes (example_result ''unknown'' [''a'', ''b'', ''c''] (Some 2000))
                     = py_split s)
            | None \<Rightarrow> (case p ''permissions'' of
                 Some v \<Rightarrow> v = JList (map JStr
                     (scopes (example_result ''unknown'' [''a'', ''b'', ''c''] (Some 2000))))
               | None \<Rightarrow>
                   scopes (example_result ''unknown'' [''a'', ''b'', ''c''] (Some 2000)) = [])))
      \<and> py_split ''openid'' = [''openid'']
      \<and> py_split (''openid'' @ CHR '' '' # ''profile'')
          = py_split ''openid'' @ py_split ''profile''"
    by blast
  from h1 h2 h3 h4 b c show ?thesis by blast
qed

text \<open>
  C7, as stated, fails: a token whose \<open>azp\<close> claim is present but empty, with
  \<open>client_id\<close> \<open>Y\<close>, is accepted with the client identifier \<open>Y\<close>, not with its
  \<open>azp\<close> claim.
\<close>

theorem empty_azp_falls_through_counterexample:
  "claims (jwt_with [(''azp'', JStr ''''), (''client_id'', JStr ''Y'')]) ''azp'' = Some (JStr '''')
   \<and> verify_token (spec_api (world_with [(''azp'', JStr ''''), (''client_id'', JStr ''Y'')]))
         example_verifier ''tok'' warm_cache
       = (Inr (Some (example_result ''Y'' [] (Some 2000))), warm_cache)
   \<and> client_id (example_result ''Y'' [] (Some 2000)) \<noteq> ''''"
  by (simp add: run_defs)

text \<open>
  C7, amended. The client identifier of an accepted token is the \<open>azp\<close> claim if the
  payload has one that is truthy (a non-empty string), else the \<open>client_id\<close> claim if
  the payload has one, else \<open>unknown\<close>. With \<open>azp\<close> \<open>X\<close> and \<open>client_id\<close> \<open>Y\<close> it
  is \<open>X\<close>, with only \<open>client_id\<close> \<open>Y\<close> it is \<open>Y\<close>, with neither it is
  \<open>unknown\<close>.
\<close>

theorem client_id_resolution:
  "(verify_token api self tok st = (Inr (Some r), st') \<longrightarrow>
      (\<exists>sk p. get_signing_key_from_jwt api tok st = (Inr sk, st')
         \<and> decode api tok (key sk) (algorithms self) (audience self) (issuer self)
             verify_options = Inr p
         \<and> (\<forall>a. p ''azp'' = Some a \<and> truthy a \<longrightarrow> a = JStr (client_id r))
         \<and> ((\<forall>a. p ''azp'' = Some a \<longrightarrow> \<not> truthy a) \<longrightarrow>
              (case p ''client_id'' of
                 Some c \<Rightarrow> c = JStr (client_id r)
               | None \<Rightarrow> client_id r = ''unknown''))))
   \<and> resolve_client_id [''azp'' \<mapsto> JStr ''X'', ''client_id'' \<mapsto> JStr ''Y''] = JStr ''X''
   \<and> resolve_client_id [''client_id'' \<mapsto> JStr ''Y''] = JStr ''Y''
   \<and> resolve_client_id Map.empty = JStr ''unknown''"
proof (intro conjI impI)
  assume "verify_token api self tok st = (Inr (Some r), st')"
  then obtain sk p scs where
    k: "get_signing_key_from_jwt api tok st = (Inr sk, st')" and
    d: "decode api tok (key sk) (algorithms self) (audience self) (issuer self)
          verify_options = Inr p" and
    n: "AccessToken_new tok (resolve_client_id p) scs (py_get p ''exp'') (audience self) = Inr r"
    unfolding verify_token_accepts_iff by auto
  from n have c: "resolve_client_id p = JStr (client_id r)"
    unfolding AccessToken_new_Inr_iff by simp
  have 1: "\<forall>a. p ''azp'' = Some a \<and> truthy a \<longrightarrow> a = JStr (client_id r)"
    using c unfolding resolve_client_id_cases by (auto split: option.splits)
  have 2: "(\<forall>a. p ''azp'' = Some a \<longrightarrow> \<not> truthy a) \<longrightarrow>
              (case p ''client_id'' of
                 Some c \<Rightarrow> c = JStr (client_id r)
               | None \<Rightarrow> client_id r = ''unknown'')"
    using c unfolding resolve_client_id_cases by (auto split: option.splits)
  from k d 1 2 show "\<exists>sk p. get_signing_key_from_jwt api tok st = (Inr sk, st')
         \<and> decode api tok (key sk) (algorithms self) (audience self) (issuer self)
             verify_options = Inr p
         \<and> (\<forall>a. p ''azp'' = Some a \<and> truthy a \<longrightarrow> a = JStr (client_id r))
         \<and> ((\<forall>a. p ''azp'' = Some a \<longrightarrow> \<not> truthy a) \<longrightarrow>
              (case p ''client_id'' of
                 Some c \<Rightarrow> c = JStr (client_id r)
               | None \<Rightarrow> client_id r = ''unknown''))"
    by blast
qed (simp_all add: resolve_client_id_cases)

theorem client_id_resolution_witness:
  "verify_token (spec_api (world_with [(''azp'', JStr ''X''), (''client_id'', JStr ''Y'')]))
       example_verifier ''tok'' warm_cache
     = (Inr (Some (example_result ''X'' [] (Some 2000))), warm_cache)
   \<and> verify_token (spec_api (world_with [(''client_id'', JStr ''Y'')]))
       example_verifier ''tok'' warm_cache
     = (Inr (Some (example_result ''Y'' [] (Some 2000))), warm_cache)
   \<and> verify_token (spec_api (world_with [])) example_verifier ''tok'' warm_cache
     = (Inr (Some (example_result ''unknown'' [] (Some 2000))), warm_cache)
   \<and> (\<exists>sk p. get_signing_key_from_jwt
                (spec_api (world_with [(''azp'', JStr ''X''), (''client_id'', JStr ''Y'')]))
                ''tok'' warm_cache = (Inr sk, warm_cache)
         \<and> decode (spec_api (world_with [(''azp'', JStr ''X''), (''client_id'', JStr ''Y'')]))
             ''tok'' (key sk) (algorithms example_verifier) (audience example_verifier)
             (issuer example_verifier) verify_options = Inr p
         \<and> p ''azp'' = Some (JStr (client_id (example_result ''X'' [] (Some 2000)))))"
proof -
  let ?w = "world_with [(''azp'', JStr ''X''), (''client_id'', JStr ''Y'')]"
  have h1: "verify_token (spec_api ?w) example_verifier ''tok'' warm_cache
     = (Inr (Some (example_result ''X'' [] (Some 2000))), warm_cache)"
    by (simp add: run_defs)
  have h2: "verify_token (spec_api (world_with [(''client_id'', JStr ''Y'')]))
       example_verifier ''tok'' warm_cache
     = (Inr (Some (example_result ''Y'' [] (Some 2000))), warm_cache)"
    by (simp add: run_defs)
  have h3: "verify_token (spec_api (world_with [])) example_verifier ''tok'' warm_cache
     = (Inr (Some (example_result ''unknown'' [] (Some 2000))), warm_cache)"
    by (simp add: run_defs)
  from client_id_resolution
         [where api = "spec_api ?w" and self = example_verifier and tok = "''tok''"
            and st = warm_cache and st' = warm_cache
            and r = "example_result ''X'' [] (Some 2000)"] h1
  obtain sk p where
    k: "get_signing_key_from_jwt (spec_api ?w) ''tok'' warm_cache = (Inr sk, warm_cache)" and
    d: "decode (spec_api ?w) ''tok'' (key sk) (algorithms example_verifier)
          (audience example_verifier) (issuer example_verifier) verify_options = Inr p" and
    a: "\<forall>a. p ''azp'' = Some a \<and> truthy a
           \<longrightarrow> a = JStr (client_id (example_result ''X'' [] (Some 2000)))"
    by blast
  from d have "p = claims (jwt_with [(''azp'', JStr ''X''), (''client_id'', JStr ''Y'')])"
    by (simp add: spec_decode_Inr_iff world_with_def example_world_def)
  then have "p ''azp'' = Some (JStr ''X'')"
    by (simp add: run_defs)
  with a have "p ''azp'' = Some (JStr (client_id (example_result ''X'' [] (Some 2000))))"
    by auto
  with k d h1 h2 h3 show ?thesis by blast
qed

text \<open>
  C9. The \<open>expires_at\<close> of an accepted token is the \<open>exp\<close> claim of its payload, and
  \<open>None\<close> when the payload has none; a token without an \<open>exp\<close> claim can be accepted.
\<close>

theorem expires_at_is_exp_claim:
  "(verify_token api self tok st = (Inr (Some r), st') \<longrightarrow>
      (\<exists>sk p. get_signing_key_from_jwt api tok st = (Inr sk, st')
         \<and> decode api tok (key sk) (algorithms self) (audience self) (issuer self)
             verify_options = Inr p
         \<and> (case p ''exp'' of
              None \<Rightarrow> expires_at r = None
            | Some v \<Rightarrow> (v = JNull \<and> expires_at r = None)
                        \<or> (\<exists>n. v = JNum n \<and> expires_at r = Some n))))
   \<and> verify_token (spec_api (example_world (example_jwt ''RS256'' claims_without_exp)))
         example_verifier ''tok'' warm_cache
       = (Inr (Some (example_result ''unknown'' [] None)), warm_cache)"
proof (intro conjI impI)
  assume "verify_token api self tok st = (Inr (Some r), st')"
  then obtain sk p scs where
    k: "get_signing_key_from_jwt api tok st = (Inr sk, st')" and
    d: "decode api tok (key sk) (algorithms self) (audience self) (issuer self)
          verify_options = Inr p" and
    n: "AccessToken_new tok (resolve_client_id p) scs (py_get p ''exp'') (audience self) = Inr r"
    unfolding verify_token_accepts_iff by auto
  from n have "as_opt_int (py_get p ''exp'') = Some (expires_at r)"
    unfolding AccessToken_new_Inr_iff by simp
  then have "case p ''exp'' of
              None \<Rightarrow> expires_at r = None
            | Some v \<Rightarrow> (v = JNull \<and> expires_at r = None)
                        \<or> (\<exists>n. v = JNum n \<and> expires_at r = Some n)"
    unfolding as_opt_int_Some_iff py_get_def by (auto split: option.splits)
  with k d show "\<exists>sk p. get_signing_key_from_jwt api tok st = (Inr sk, st')
         \<and> decode api tok (key sk) (algorithms self) (audience self) (issuer self)
             verify_options = Inr p
         \<and> (case p ''exp'' of
              None \<Rightarrow> expires_at r = None
            | Some v \<Rightarrow> (v = JNull \<and> expires_at r = None)
                        \<or> (\<exists>n. v = JNum n \<and> expires_at r = Some n))"
    by blast
next
  show "verify_token (spec_api (example_world (example_jwt ''RS256'' claims_without_exp)))
         example_verifier ''tok'' warm_cache
       = (Inr (Some (example_result ''unknown'' [] None)), warm_cache)"
    by (simp add: run_defs claims_without_exp_def)
qed

theorem expires_at_is_exp_claim_witness:
  "verify_token (spec_api (world_with [])) example_verifier ''tok'' warm_cache
     = (Inr (Some (example_result ''unknown'' [] (Some 2000))), warm_cache)
   \<and> claims (jwt_with []) ''exp'' = Some (JNum 2000)
   \<and> (\<exists>sk p. get_signing_key_from_jwt (spec_api (world_with [])) ''tok'' warm_cache
                = (Inr sk, warm_cache)
         \<and> decode (spec_api (world_with [])) ''tok'' (key sk) (algorithms example_verifier)
             (audience example_verifier) (issuer example_verifier) verify_options = Inr p
         \<and> (case p ''exp'' of
              None \<Rightarrow> expires_at (example_result ''unknown'' [] (Some 2000)) = None
            | Some v \<Rightarrow>
                (v = JNull \<and> expires_at (example_result ''unknown'' [] (Some 2000)) = None)
                \<or> (\<exists>n. v = JNum n
                      \<and> expires_at (example_result ''unknown'' [] (Some 2000)) = Some n)))"
proof -
  have h: "verify_token (spec_api (world_with [])) example_verifier ''tok'' warm_cache
     = (Inr (Some (example_result ''unknown'' [] (Some 2000))), warm_cache)"
    by (simp add: run_defs)
  have e: "claims (jwt_with []) ''exp'' = Some (JNum 2000)"
    by (simp add: run_defs)
  from expires_at_is_exp_claim
         [where api = "spec_api (world_with [])" and self = example_verifier
            and tok = "''tok''" and st = warm_cache and st' = warm_cache
            and r = "example_result ''unknown'' [] (Some 2000)"] h
  have "\<exists>sk p. get_signing_key_from_jwt (spec_api (world_with [])) ''tok'' warm_cache
                = (Inr sk, warm_cache)
         \<and> decode (spec_api (world_with [])) ''tok'' (key sk) (algorithms example_verifier)
             (audience example_verifier) (issuer example_verifier) verify_options = Inr p
         \<and> (case p ''exp'' of
              None \<Rightarrow> expires_at (example_result ''unknown'' [] (Some 2000)) = None
            | Some v \<Rightarrow>
                (v = JNull \<and> expires_at (example_result ''unknown'' [] (Some 2000)) = None)
                \<or> (\<exists>n. v = JNum n
                      \<and> expires_at (example_result ''unknown'' [] (Some 2000)) = Some n))"
    by blast
  with h e show ?thesis by blast
qed

text \<open>
  C10. When the payload of an accepted token has a scope claim, the granted scopes are
  the split of that claim and the permissions claim plays no part: changing or removing
  it leaves the extracted scopes as they are. With the scope claim empty and permissions
  \<open>a\<close>, no scope is granted.
\<close>

theorem scope_claim_shadows_permissions:
  "(verify_token api self tok st = (Inr (Some r), st') \<longrightarrow>
      (\<exists>sk p. get_signing_key_from_jwt api tok st = (Inr sk, st')
         \<and> decode api tok (key sk) (algorithms self) (audience self) (issuer self)
             verify_options = Inr p
         \<and> (\<forall>v. p ''scope'' = Some v \<longrightarrow> (\<exists>s. v = JStr s \<and> scopes r = py_split s))))
   \<and> (q ''scope'' = Some v' \<longrightarrow> extract_scopes (q(''permissions'' := x)) = extract_scopes q)
   \<and> extract_scopes [''scope'' \<mapsto> JStr '''', ''permissions'' \<mapsto> JList [JStr ''a'']]
       = Inr (JList [])"
proof (intro conjI impI)
  assume "verify_token api self tok st = (Inr (Some r), st')"
  then obtain sk p scs where
    k: "get_signing_key_from_jwt api tok st = (Inr sk, st')" and
    d: "decode api tok (key sk) (algorithms self) (audience self) (issuer self)
          verify_options = Inr p" and
    x: "extract_scopes p = Inr scs" and
    n: "AccessToken_new tok (resolve_client_id p) scs (py_get p ''exp'') (audience self) = Inr r"
    unfolding verify_token_accepts_iff by auto
  from n have s: "scs = JList (map JStr (scopes r))"
    unfolding AccessToken_new_Inr_iff by simp
  from x s have "\<forall>v. p ''scope'' = Some v \<longrightarrow> (\<exists>s. v = JStr s \<and> scopes r = py_split s)"
    unfolding extract_scopes_Inr_iff by (auto simp: map_JStr_eq_iff split: option.splits)
  with k d show "\<exists>sk p. get_signing_key_from_jwt api tok st = (Inr sk, st')
         \<and> decode api tok (key sk) (algorithms self) (audience self) (issuer self)
             verify_options = Inr p
         \<and> (\<forall>v. p ''scope'' = Some v \<longrightarrow> (\<exists>s. v = JStr s \<and> scopes r = py_split s))"
    by blast
next
  assume "q ''scope'' = Some v'"
  then show "extract_scopes (q(''permissions'' := x)) = extract_scopes q"
    by (simp add: extract_scopes_def)
next
  show "extract_scopes [''scope'' \<mapsto> JStr '''', ''permissions'' \<mapsto> JList [JStr ''a'']]
       = Inr (JList [])"
    by (simp add: extract_scopes_def py_split_def)
qed

theorem scope_claim_shadows_permissions_witness:
  "verify_token
       (spec_api (world_with [(''scope'', JStr ''''), (''permissions'', JList [JStr ''a''])]))
       example_verifier ''tok'' warm_cache
     = (Inr (Some (example_result ''unknown'' [] (Some 2000))), warm_cache)
   \<and> claims (jwt_with [(''scope'', JStr ''''), (''permissions'', JList [JStr ''a''])])
       ''permissions'' = Some (JList [JStr ''a''])
   \<and> claims (jwt_with [(''scope'', JStr ''''), (''permissions'', JList [JStr ''a''])])
       ''scope'' = Some (JStr '''')
   \<and> scopes (example_result ''unknown'' [] (Some 2000)) = py_split ''''"
proof -
  let ?w = "world_with [(''scope'', JStr ''''), (''permissions'', JList [JStr ''a''])]"
  let ?j = "jwt_with [(''scope'', JStr ''''), (''permissions'', JList [JStr ''a''])]"
  have h: "verify_token (spec_api ?w) example_verifier ''tok'' warm_cache
     = (Inr (Some (example_result ''unknown'' [] (Some 2000))), warm_cache)"
    by (simp add: run_defs)
  have c: "claims ?j ''permissions'' = Some (JList [JStr ''a''])"
    and s: "claims ?j ''scope'' = Some (JStr '''')"
    by (simp_all add: run_defs)
  from scope_claim_shadows_permissions
         [where api = "spec_api ?w" and self = example_verifier
            and tok = "''tok''" and st = warm_cache and st' = warm_cache
            and r = "example_result ''unknown'' [] (Some 2000)"] h
  obtain sk :: signing_key and p where
    d: "decode (spec_api ?w) ''tok'' (key sk) (algorithms example_verifier)
          (audience example_verifier) (issuer example_verifier) verify_options = Inr p" and
    a: "\<forall>v. p ''scope'' = Some v \<longrightarrow>
          (\<exists>s. v = JStr s \<and> scopes (example_result ''unknown'' [] (Some 2000)) = py_split s)"
    by blast
  from d have "p = claims ?j"
    by (simp add: spec_decode_Inr_iff world_with_def example_world_def)
  with s a have "scopes (example_result ''unknown'' [] (Some 2000)) = py_split ''''"
    by auto
  with h c s show ?thesis by blast
qed

text \<open>
  C4. A token whose \<open>exp\<close> claim lies in the past beyond the tolerance is rejected. A
  token is accepted, with its \<open>exp\<close> in the result, when its \<open>exp\<close> lies in the future
  beyond the tolerance and all its other claims are valid: its signature verifies under
  an accepted algorithm against the key that the key set holds for its key identifier
  (in the cache or, after a miss, in the fetched document), its audience and issuer are
  the verifier's, its issued-at is not in the future, and its remaining claims have the
  shape the spec gives to token claims (the scope a string, the permissions a list of
  strings, the authorized party and the client id strings).
\<close>

theorem expiry_decides:
  "(unpack w tok = Some j \<and> claims j ''exp'' = Some (JNum e) \<and> e + leeway w < now w
      \<longrightarrow> fst (verify_token (spec_api w) self tok st) = Inr None)
   \<and> (unpack w tok = Some j
       \<and> (match_kid (cached st) (hdr_kid j) = Some sk
          \<or> (match_kid (cached st) (hdr_kid j) = None
             \<and> (\<exists>keys. endpoint w (fetches st) = Some keys
                   \<and> match_kid keys (hdr_kid j) = Some sk)))
       \<and> hdr_alg j \<in> set (algorithms self) \<and> hdr_alg j \<noteq> ''none''
       \<and> validates j (key sk) (hdr_alg j)
       \<and> claims j ''aud'' = Some (JStr (audience self))
       \<and> claims j ''iss'' = Some (JStr (issuer self))
       \<and> (claims j ''iat'' = None
          \<or> (\<exists>t. claims j ''iat'' = Some (JNum t) \<and> t \<le> now w + leeway w))
       \<and> claims j ''exp'' = Some (JNum e) \<and> 0 \<le> leeway w \<and> now w + leeway w < e
       \<and> (\<forall>v. claims j ''scope'' = Some v \<longrightarrow> (\<exists>s. v = JStr s))
       \<and> (\<forall>v. claims j ''permissions'' = Some v \<longrightarrow> (\<exists>ps. v = JList (map JStr ps)))
       \<and> (\<forall>v. claims j ''azp'' = Some v \<longrightarrow> (\<exists>a. v = JStr a))
       \<and> (\<forall>v. claims j ''client_id'' = Some v \<longrightarrow> (\<exists>c. v = JStr c))
      \<longrightarrow> (\<exists>r. fst (verify_token (spec_api w) self tok st) = Inr (Some r)
                \<and> token r = tok \<and> expires_at r = Some e
                \<and> resource r = Some (audience self)))"
proof (intro conjI impI)
  assume a: "unpack w tok = Some j \<and> claims j ''exp'' = Some (JNum e) \<and> e + leeway w < now w"
  show "fst (verify_token (spec_api w) self tok st) = Inr None"
  proof (rule verify_token_rejects_unless)
    fix sk :: signing_key and st1 :: key_cache
    have "\<And>p. spec_decode w tok (key sk) (algorithms self) (audience self) (issuer self)
            verify_options \<noteq> Inr p"
      using a unfolding spec_decode_Inr_iff by auto
    then show "\<exists>e. decode (spec_api w) tok (key sk) (algorithms self) (audience self)
                  (issuer self) verify_options = Inl e"
      using spec_decode_fails by simp
  qed
next
  assume a: "unpack w tok = Some j
       \<and> (match_kid (cached st) (hdr_kid j) = Some sk
          \<or> (match_kid (cached st) (hdr_kid j) = None
             \<and> (\<exists>keys. endpoint w (fetches st) = Some keys
                   \<and> match_kid keys (hdr_kid j) = Some sk)))
       \<and> hdr_alg j \<in> set (algorithms self) \<and> hdr_alg j \<noteq> ''none''
       \<and> validates j (key sk) (hdr_alg j)
       \<and> claims j ''aud'' = Some (JStr (audience self))
       \<and> claims j ''iss'' = Some (JStr (issuer self))
       \<and> (claims j ''iat'' = None
          \<or> (\<exists>t. claims j ''iat'' = Some (JNum t) \<and> t \<le> now w + leeway w))
       \<and> claims j ''exp'' = Some (JNum e) \<and> 0 \<le> leeway w \<and> now w + leeway w < e
       \<and> (\<forall>v. claims j ''scope'' = Some v \<longrightarrow> (\<exists>s. v = JStr s))
       \<and> (\<forall>v. claims j ''permissions'' = Some v \<longrightarrow> (\<exists>ps. v = JList (map JStr ps)))
       \<and> (\<forall>v. claims j ''azp'' = Some v \<longrightarrow> (\<exists>a. v = JStr a))
       \<and> (\<forall>v. claims j ''client_id'' = Some v \<longrightarrow> (\<exists>c. v = JStr c))"
  from a have "fst (resolve w tok st) = Inr sk"
    by (intro resolve_finds [where j = j]) blast+
  then have k: "resolve w tok st = (Inr sk, snd (resolve w tok st))"
    by (metis prod.collapse)
  from a have iat: "issued_at_ok (now w) (leeway w) (claims j ''iat'')"
    by auto
  from a have ex: "expiry_ok (now w) (leeway w) (claims j ''exp'')"
    by auto
  from a iat ex have d: "spec_decode w tok (key sk) (algorithms self) (audience self)
        (issuer self) verify_options = Inr (claims j)"
    unfolding spec_decode_Inr_iff by simp
  from a obtain ss where x: "extract_scopes (claims j) = Inr (JList (map JStr ss))"
    using extract_scopes_shape [of "claims j"] by blast
  from a obtain c where c: "resolve_client_id (claims j) = JStr c"
    using resolve_client_id_shape [of "claims j"] by blast
  let ?r = "\<lparr>token = tok, client_id = c, scopes = ss, expires_at = Some e,
              resource = Some (audience self)\<rparr>"
  from a c have n: "AccessToken_new tok (resolve_client_id (claims j)) (JList (map JStr ss))
                    (py_get (claims j) ''exp'') (audience self) = Inr ?r"
    unfolding AccessToken_new_Inr_iff by (simp add: py_get_def)
  from k d x n have "verify_token (spec_api w) self tok st
                       = (Inr (Some ?r), snd (resolve w tok st))"
    unfolding verify_token_accepts_iff by auto
  then have "fst (verify_token (spec_api w) self tok st) = Inr (Some ?r)
                \<and> token ?r = tok \<and> expires_at ?r = Some e
                \<and> resource ?r = Some (audience self)"
    by simp
  then show "\<exists>r. fst (verify_token (spec_api w) self tok st) = Inr (Some r)
                \<and> token r = tok \<and> expires_at r = Some e
                \<and> resource r = Some (audience self)"
    by blast
qed

theorem expiry_decides_witness:
  "unpack (world_with [(''exp'', JNum 999)]) ''tok'' = Some (jwt_with [(''exp'', JNum 999)])
   \<and> claims (jwt_with [(''exp'', JNum 999)]) ''exp'' = Some (JNum 999)
   \<and> 999 + leeway (world_with [(''exp'', JNum 999)]) < now (world_with [(''exp'', JNum 999)])
   \<and> fst (verify_token (spec_api (world_with [(''exp'', JNum 999)])) example_verifier ''tok''
           warm_cache) = Inr None
   \<and> claims (jwt_with [(''scope'', JStr ''read write''), (''azp'', JStr ''X'')]) ''exp''
       = Some (JNum 2000)
   \<and> now (world_with [(''scope'', JStr ''read write''), (''azp'', JStr ''X'')])
        + leeway (world_with [(''scope'', JStr ''read write''), (''azp'', JStr ''X'')]) < 2000
   \<and> (\<exists>r. fst (verify_token
                  (spec_api (world_with [(''scope'', JStr ''read write''), (''azp'', JStr ''X'')]))
                  example_verifier ''tok'' warm_cache) = Inr (Some r)
          \<and> token r = ''tok'' \<and> expires_at r = Some 2000
          \<and> resource r = Some (audience example_verifier))
   \<and> fst (verify_token
             (spec_api (world_with [(''scope'', JStr ''read write''), (''azp'', JStr ''X'')]))
             example_verifier ''tok'' warm_cache)
       = Inr (Some (example_result ''X'' [''read'', ''write''] (Some 2000)))"
proof -
  let ?w1 = "world_with [(''exp'', JNum 999)]" and ?j1 = "jwt_with [(''exp'', JNum 999)]"
  let ?w2 = "world_with [(''scope'', JStr ''read write''), (''azp'', JStr ''X'')]"
  let ?j2 = "jwt_with [(''scope'', JStr ''read write''), (''azp'', JStr ''X'')]"
  let ?sk = "\<lparr>key_id = ''kid1'', key = ''pub1''\<rparr>"
  have h1: "unpack ?w1 ''tok'' = Some ?j1 \<and> claims ?j1 ''exp'' = Some (JNum 999)
      \<and> 999 + leeway ?w1 < now ?w1"
    by (simp add: run_defs)
  have h2: "unpack ?w2 ''tok'' = Some ?j2
       \<and> (match_kid (cached warm_cache) (hdr_kid ?j2) = Some ?sk
          \<or> (match_kid (cached warm_cache) (hdr_kid ?j2) = None
             \<and> (\<exists>keys. endpoint ?w2 (fetches warm_cache) = Some keys
                   \<and> match_kid keys (hdr_kid ?j2) = Some ?sk)))
       \<and> hdr_alg ?j2 \<in> set (algorithms example_verifier) \<and> hdr_alg ?j2 \<noteq> ''none''
       \<and> validates ?j2 (key ?sk) (hdr_alg ?j2)
       \<and> claims ?j2 ''aud'' = Some (JStr (audience example_verifier))
       \<and> claims ?j2 ''iss'' = Some (JStr (issuer example_verifier))
       \<and> (claims ?j2 ''iat'' = None
          \<or> (\<exists>t. claims ?j2 ''iat'' = Some (JNum t) \<and> t \<le> now ?w2 + leeway ?w2))
       \<and> claims ?j2 ''exp'' = Some (JNum 2000) \<and> 0 \<le> leeway ?w2
       \<and> now ?w2 + leeway ?w2 < 2000
       \<and> (\<forall>v. claims ?j2 ''scope'' = Some v \<longrightarrow> (\<exists>s. v = JStr s))
       \<and> (\<forall>v. claims ?j2 ''permissions'' = Some v \<longrightarrow> (\<exists>ps. v = JList (map JStr ps)))
       \<and> (\<forall>v. claims ?j2 ''azp'' = Some v \<longrightarrow> (\<exists>a. v = JStr a))
       \<and> (\<forall>v. claims ?j2 ''client_id'' = Some v \<longrightarrow> (\<exists>c. v = JStr c))"
    by (simp add: run_defs)
  have run: "fst (verify_token (spec_api ?w2) example_verifier ''tok'' warm_cache)
       = Inr (Some (example_result ''X'' [''read'', ''write''] (Some 2000)))"
    by (simp add: run_defs)
  from expiry_decides
         [where w = ?w1 and tok = "''tok''" and j = ?j1 and e = 999 and self = example_verifier
            and st = warm_cache] h1
  have c1: "fst (verify_token (spec_api ?w1) example_verifier ''tok'' warm_cache) = Inr None"
    by blast
  from expiry_decides
         [where w = ?w2 and tok = "''tok''" and j = ?j2 and e = 2000 and self = example_verifier
            and st = warm_cache and sk = ?sk] h2
  have c2: "\<exists>r. fst (verify_token (spec_api ?w2) example_verifier ''tok'' warm_cache)
              = Inr (Some r)
          \<and> token r = ''tok'' \<and> expires_at r = Some 2000
          \<and> resource r = Some (audience example_verifier)"
    by blast
  from h1 h2 c1 c2 run show ?thesis by blast
qed

text \<open>
  C8. \<open>verify_token\<close> asks the key client once, and the key cache it leaves is the one
  that single call left. No call of \<open>verify_token\<close> sends more than one request to the
  key-set endpoint. A token whose key identifier is absent from the current key set,
  neither cached nor in the document that the one refetch brings, or whose refetch
  fails, is rejected.
\<close>

theorem unknown_key_one_refetch:
  "snd (verify_token api self tok st) = snd (get_signing_key_from_jwt api tok st)
   \<and> fetches (snd (verify_token (spec_api w) self tok ks)) \<le> Suc (fetches ks)
   \<and> (unpack w tok = Some j \<and> match_kid (cached ks) (hdr_kid j) = None
       \<and> (endpoint w (fetches ks) = None
          \<or> (\<exists>keys. endpoint w (fetches ks) = Some keys \<and> match_kid keys (hdr_kid j) = None))
      \<longrightarrow> fst (verify_token (spec_api w) self tok ks) = Inr None)"
proof (intro conjI impI)
  show "snd (verify_token api self tok st) = snd (get_signing_key_from_jwt api tok st)"
    by (rule verify_token_state)
next
  show "fetches (snd (verify_token (spec_api w) self tok ks)) \<le> Suc (fetches ks)"
    by (simp add: verify_token_state resolve_fetches)
next
  assume a: "unpack w tok = Some j \<and> match_kid (cached ks) (hdr_kid j) = None
       \<and> (endpoint w (fetches ks) = None
          \<or> (\<exists>keys. endpoint w (fetches ks) = Some keys \<and> match_kid keys (hdr_kid j) = None))"
  then have "\<exists>e. fst (resolve w tok ks) = Inl e"
    using resolve_miss(2,3) by blast
  then obtain e where "resolve w tok ks = (Inl e, snd (resolve w tok ks))"
    by (metis prod.collapse)
  then have "get_signing_key_from_jwt (spec_api w) tok ks = (Inl e, snd (resolve w tok ks))"
    by simp
  then show "fst (verify_token (spec_api w) self tok ks) = Inr None"
    by (simp add: verify_token_key_failure)
qed

theorem unknown_key_one_refetch_witness:
  "unpack (example_world unknown_kid_jwt) ''tok'' = Some unknown_kid_jwt
   \<and> match_kid (cached warm_cache) (hdr_kid unknown_kid_jwt) = None
   \<and> endpoint (example_world unknown_kid_jwt) (fetches warm_cache) = Some example_keys
   \<and> match_kid example_keys (hdr_kid unknown_kid_jwt) = None
   \<and> validates unknown_kid_jwt ''pub1'' (hdr_alg unknown_kid_jwt)
   \<and> fetches (snd (verify_token (spec_api (example_world unknown_kid_jwt)) example_verifier
                     ''tok'' warm_cache)) \<le> Suc (fetches warm_cache)
   \<and> fst (verify_token (spec_api (example_world unknown_kid_jwt)) example_verifier ''tok''
           warm_cache) = Inr None"
proof -
  let ?w = "example_world unknown_kid_jwt"
  have h: "unpack ?w ''tok'' = Some unknown_kid_jwt
      \<and> match_kid (cached warm_cache) (hdr_kid unknown_kid_jwt) = None"
    by (simp add: run_defs unknown_kid_jwt_def)
  have b: "endpoint ?w (fetches warm_cache) = Some example_keys
      \<and> match_kid example_keys (hdr_kid unknown_kid_jwt) = None"
    by (simp add: run_defs unknown_kid_jwt_def)
  have v: "validates unknown_kid_jwt ''pub1'' (hdr_alg unknown_kid_jwt)"
    by (simp add: unknown_kid_jwt_def)
  from unknown_key_one_refetch
         [where w = ?w and tok = "''tok''" and j = unknown_kid_jwt and ks = warm_cache
            and self = example_verifier and api = "spec_api ?w" and st = warm_cache] h b
  have "fetches (snd (verify_token (spec_api ?w) example_verifier ''tok'' warm_cache))
          \<le> Suc (fetches warm_cache)
      \<and> fst (verify_token (spec_api ?w) example_verifier ''tok'' warm_cache) = Inr None"
    by blast
  with h b v show ?thesis by blast
qed

end
